theory Spec2Isabelle
  imports Main
begin

section \<open>Data model of \<open>benchmark_spec.py\<close>\<close>

text \<open>
  The provider and OS constants of \<open>benchmark_spec.py\<close> (\<open>GCP\<close>, \<open>AZURE\<close>, \<open>AWS\<close>,
  \<open>DIGITALOCEAN\<close>; \<open>DEBIAN\<close>, \<open>RHEL\<close>, \<open>WINDOWS\<close>) and the stage constants of \<open>pkb.py\<close>.
  The flags \<open>cloud\<close>, \<open>os_type\<close> and \<open>run_stage\<close> are enum flags, so no other value reaches
  the code.
\<close>

datatype cloud = GCP | AZURE | AWS | DIGITALOCEAN

datatype os_type = DEBIAN | RHEL | WINDOWS

datatype stage = STAGE_ALL | STAGE_PREPARE | STAGE_RUN | STAGE_CLEANUP

text \<open>
  Resource handles. The provider classes are external collaborators; a handle is the data
  its constructor receives plus the attributes the orchestrator reads
  (\<open>is_static\<close>, \<open>install_packages\<close>, \<open>max_local_disks\<close>, the three ports, \<open>disk_specs\<close>).
\<close>

record network =
  net_cloud :: cloud
  net_zone :: string

record firewall =
  fw_cloud :: cloud
  fw_project :: "string option"

record disk_spec =
  disk_size :: int
  disk_type :: string
  mount_point :: string
  iops :: int
  num_striped_disks :: int

record vm_spec =
  vs_project :: "string option"
  vs_zone :: string
  vs_machine_type :: string
  vs_image :: "string option"
  vs_network :: network

record vm =
  vmspec :: vm_spec
  is_static :: bool
  install_packages :: bool
  max_local_disks :: int
  winrm_port :: "int option"
  smb_port :: "int option"
  ssh_port :: "int option"
  disk_specs :: "disk_spec list"

text \<open>
  Every call that leaves the orchestrator (a method of a handle, a hook of the benchmark
  module, the sample collector, a log line) is recorded as an event.
\<close>

datatype event =
    VmCreate vm
  | FirewallAllowPort firewall vm int
  | VmAddMetadata vm string
  | VmWaitForBootCompletion vm
  | VmStartup vm
  | VmSetupLocalDisks vm
  | VmCreateScratchDisk vm disk_spec
  | VmPackageCleanup vm
  | VmDelete vm
  | VmDeleteScratchDisks vm
  | FirewallDisallowAllPorts firewall
  | NetworkCreate network
  | NetworkDelete network
  | GenerateSSHConfig "vm list"
  | CheckPrerequisites
  | BeforeRunHook nat
  | BenchmarkPrepare
  | BenchmarkRun
  | BenchmarkCleanup
  | CollectorAddSamples string
  | OpenFile string
  | Log string

datatype exn =
    Raised event
  | ThreadException
  | Error cloud os_type
  | KeyError string
  | IndexError
  | IOError string
  | AttributeError string

record spec =
  vms :: "vm list"
  vm_dict :: "(string \<times> vm list) list"
  networks :: "(string \<times> network) list"
  last_vm_spec :: "vm_spec option"
  benchmark_name :: string
  spec_cloud :: cloud
  spec_project :: "string option"
  zones :: "string list"
  image :: "string option"
  machine_type :: string
  num_vms :: int
  scratch_disk :: int
  scratch_disk_size :: int
  scratch_disk_type :: string
  scratch_disk_iops :: int
  spec_firewall :: firewall
  file_name :: string
  deleted :: bool
  always_call_cleanup :: bool

text \<open>
  The world outside the spec object: the calls made so far, the pickle files on disk
  and the pool of static virtual machines.
\<close>

record world =
  trace :: "event list"
  files :: "(string \<times> spec) list"
  static_pool :: "vm list"

text \<open>
  The environment fixes what the code cannot decide: which external call raises (it may
  depend on everything that happened before), the temporary directory returned by
  \<open>vm_util.GetTempDir\<close>, the attributes a provider's VM class gives a new handle, and the
  number of functions registered in \<open>BEFORE_RUN_HOOKS\<close>.
\<close>

record class_attrs =
  cls_install_packages :: bool
  cls_max_local_disks :: int
  cls_winrm_port :: "int option"
  cls_smb_port :: "int option"
  cls_ssh_port :: "int option"

record env =
  raises :: "event list \<Rightarrow> event \<Rightarrow> bool"
  temp_dir :: string
  vm_class :: "cloud \<Rightarrow> os_type \<Rightarrow> vm_spec \<Rightarrow> class_attrs"
  before_run_hooks :: nat

record flags =
  run_stage :: stage
  flag_cloud :: cloud
  flag_os_type :: os_type
  flag_project :: "string option"
  flag_zones :: "string list option"
  flag_image :: "string option"
  flag_machine_type :: "string option"
  flag_num_vms :: int
  flag_scratch_disk_size :: int
  flag_scratch_disk_type :: string
  flag_scratch_disk_iops :: int
  flag_num_striped_disks :: int
  flag_num_striped_disks_present :: bool

section \<open>Statements with exceptions\<close>

type_synonym 'a prog = "world \<Rightarrow> (exn + 'a) \<times> world"

definition return :: "'a \<Rightarrow> 'a prog" where
  "return x w = (Inr x, w)"

definition raise :: "exn \<Rightarrow> 'a prog" where
  "raise e w = (Inl e, w)"

definition bind :: "'a prog \<Rightarrow> ('a \<Rightarrow> 'b prog) \<Rightarrow> 'b prog" where
  "bind m k w = (case m w of (Inl e, w') \<Rightarrow> (Inl e, w') | (Inr x, w') \<Rightarrow> k x w')"

definition seq :: "unit prog \<Rightarrow> 'b prog \<Rightarrow> 'b prog" where
  "seq m k = bind m (\<lambda>_. k)"

text \<open>\<open>try: m except Exception: h\<close>\<close>

definition try_except :: "'a prog \<Rightarrow> (exn \<Rightarrow> 'a prog) \<Rightarrow> 'a prog" where
  "try_except m h w = (case m w of (Inl e, w') \<Rightarrow> h e w' | (Inr x, w') \<Rightarrow> (Inr x, w'))"

text \<open>
  \<open>try: m finally: f\<close>. The \<open>finally\<close> block always runs; an exception raised inside it
  replaces the one that was in flight.
\<close>

definition try_finally :: "'a prog \<Rightarrow> unit prog \<Rightarrow> 'a prog" where
  "try_finally m f w =
     (case m w of
        (r, w') \<Rightarrow> (case f w' of (Inl e, w'') \<Rightarrow> (Inl e, w'') | (Inr _, w'') \<Rightarrow> (r, w'')))"

text \<open>An external call: recorded, then raises if the environment says so.\<close>

definition call :: "env \<Rightarrow> event \<Rightarrow> unit prog" where
  "call E e w =
     (if raises E (trace w) e
      then (Inl (Raised e), w\<lparr>trace := trace w @ [e]\<rparr>)
      else (Inr (), w\<lparr>trace := trace w @ [e]\<rparr>))"

text \<open>\<open>logging.info\<close>, \<open>logging.error\<close>, \<open>logging.exception\<close>: recorded, never raise.\<close>

definition logging :: "string \<Rightarrow> unit prog" where
  "logging msg w = (Inr (), w\<lparr>trace := trace w @ [Log msg]\<rparr>)"

text \<open>A \<open>for\<close> loop whose body may raise: the first exception leaves the loop.\<close>

fun for_each :: "('a \<Rightarrow> unit prog) \<Rightarrow> 'a list \<Rightarrow> unit prog" where
  "for_each body [] = return ()"
| "for_each body (x # xs) = seq (body x) (for_each body xs)"

text \<open>
  Modelled from the spec: \<open>vm_util.RunThreaded\<close>, which is not among the sources. The spec
  describes a fan-out over a worker pool in which a failure of one unit of work propagates
  out of the fan-out. The model runs the units one after the other in list order (one of
  the possible interleavings), lets every unit run to its own end or first exception, and
  raises once all of them have run if any of them raised.
\<close>

fun RunThreaded_from :: "bool \<Rightarrow> ('a \<Rightarrow> unit prog) \<Rightarrow> 'a list \<Rightarrow> unit prog" where
  "RunThreaded_from failed target [] w = (if failed then (Inl ThreadException, w) else (Inr (), w))"
| "RunThreaded_from failed target (x # xs) w =
     (case target x w of
        (Inl e, w') \<Rightarrow> RunThreaded_from True target xs w'
      | (Inr _, w') \<Rightarrow> RunThreaded_from failed target xs w')"

definition RunThreaded :: "('a \<Rightarrow> unit prog) \<Rightarrow> 'a list \<Rightarrow> unit prog" where
  "RunThreaded target thread_params = RunThreaded_from False target thread_params"

section \<open>\<open>BenchmarkSpec.Delete\<close>\<close>

text \<open>\<open>BenchmarkSpec.DeleteVm\<close>\<close>

definition DeleteVm :: "env \<Rightarrow> vm \<Rightarrow> unit prog" where
  "DeleteVm E v =
     seq (if is_static v \<and> install_packages v then call E (VmPackageCleanup v) else return ())
    (seq (call E (VmDelete v))
         (call E (VmDeleteScratchDisks v)))"

text \<open>
  \<open>BenchmarkSpec.Delete\<close>. The dictionary \<open>self.networks\<close> is an association list in
  insertion order; the loop over its keys looks each key up again, which for a
  dictionary is the value stored with the key.
\<close>

definition Delete_networks :: "env \<Rightarrow> (string \<times> network) list \<Rightarrow> unit prog" where
  "Delete_networks E nets =
     for_each (\<lambda>(zone, net).
        try_except (call E (NetworkDelete net))
          (\<lambda>_. logging ''Got an exception deleting networks. Attempting to continue tearing down.''))
       nets"

definition Delete :: "flags \<Rightarrow> env \<Rightarrow> spec \<Rightarrow> spec prog" where
  "Delete F E self =
     (if run_stage F \<notin> {STAGE_ALL, STAGE_CLEANUP} \<or> deleted self then return self
      else
        seq (if vms self \<noteq> []
             then try_except (RunThreaded (DeleteVm E) (vms self))
                    (\<lambda>_. logging ''Got an exception deleting VMs. Attempting to continue tearing down.'')
             else return ())
       (seq (try_except (call E (FirewallDisallowAllPorts (spec_firewall self)))
                    (\<lambda>_. logging ''Got an exception disabling firewalls. Attempting to continue tearing down.''))
       (seq (Delete_networks E (networks self))
            (return (self\<lparr>deleted := True\<rparr>)))))"

text \<open>The events recorded between two worlds.\<close>

definition events_since :: "world \<Rightarrow> world \<Rightarrow> event list" where
  "events_since w w' = drop (length (trace w)) (trace w')"


section \<open>\<open>BenchmarkSpec.PrepareVm\<close> and \<open>BenchmarkSpec.Prepare\<close>\<close>

text \<open>\<open>disk.LOCAL\<close>; the module \<open>disk\<close> is not among the sources, the spec names the type.\<close>

definition LOCAL :: string where
  "LOCAL = ''local''"

text \<open>\<open>if port: firewall.AllowPort(vm, port)\<close>; \<open>None\<close> and \<open>0\<close> are false.\<close>

definition AllowPort_if_set :: "env \<Rightarrow> firewall \<Rightarrow> vm \<Rightarrow> int option \<Rightarrow> unit prog" where
  "AllowPort_if_set E fw v port =
     (case port of
        None \<Rightarrow> return ()
      | Some p \<Rightarrow> if p \<noteq> 0 then call E (FirewallAllowPort fw v p) else return ())"

definition PrepareVm :: "flags \<Rightarrow> env \<Rightarrow> spec \<Rightarrow> vm \<Rightarrow> firewall \<Rightarrow> unit prog" where
  "PrepareVm F E self v fw =
     seq (call E (VmCreate v))
    (seq (logging ''VM: %s'')
    (seq (logging ''Waiting for boot completion.'')
    (seq (AllowPort_if_set E fw v (winrm_port v))
    (seq (AllowPort_if_set E fw v (smb_port v))
    (seq (AllowPort_if_set E fw v (ssh_port v))
    (seq (call E (VmAddMetadata v (benchmark_name self)))
    (seq (call E (VmWaitForBootCompletion v))
    (seq (call E (VmStartup v))
    (seq (if flag_scratch_disk_type F = LOCAL then call E (VmSetupLocalDisks v) else return ())
         (for_each (\<lambda>d. call E (VmCreateScratchDisk v d)) (disk_specs v)))))))))))"

definition PrepareNetwork :: "env \<Rightarrow> network \<Rightarrow> unit prog" where
  "PrepareNetwork E net = call E (NetworkCreate net)"

definition Prepare :: "flags \<Rightarrow> env \<Rightarrow> spec \<Rightarrow> unit prog" where
  "Prepare F E self =
     seq (if networks self \<noteq> []
          then RunThreaded (PrepareNetwork E) (map snd (networks self))
          else return ())
         (if vms self \<noteq> []
          then seq (RunThreaded (\<lambda>v. PrepareVm F E self v (spec_firewall self)) (vms self))
                   (if flag_os_type F \<noteq> WINDOWS then call E (GenerateSSHConfig (vms self))
                    else return ())
          else return ())"

section \<open>\<open>BenchmarkSpec.__init__\<close>, flag-driven path\<close>

text \<open>
  The table \<open>DEFAULTS\<close>. Every provider has a machine type and a zone, which the code reads
  with \<open>defaults[...]\<close>; the images are read with \<open>defaults.get(...)\<close>, for which an
  entry \<open>None\<close> (AWS) and a missing entry (the Windows image of DigitalOcean) are the same.
\<close>

record defaults =
  IMAGE :: "string option"
  WINDOWS_IMAGE :: "string option"
  MACHINE_TYPE :: string
  ZONE :: string

fun DEFAULTS :: "cloud \<Rightarrow> defaults" where
  "DEFAULTS GCP =
     \<lparr>IMAGE = Some ''ubuntu-14-04'', WINDOWS_IMAGE = Some ''windows-2012-r2'',
      MACHINE_TYPE = ''n1-standard-1'', ZONE = ''us-central1-a''\<rparr>"
| "DEFAULTS AZURE =
     \<lparr>IMAGE = Some ''b39f27a8b8c64d52b05eac6a62ebad85__Ubuntu-14_04_1-LTS-amd64-server-20150123-en-us-30GB'',
      WINDOWS_IMAGE = Some ''a699494373c04fc0bc8f2bb1389d6106__Windows-Server-2012-R2-201505.01-en.us-127GB.vhd'',
      MACHINE_TYPE = ''Small'', ZONE = ''East US''\<rparr>"
| "DEFAULTS AWS =
     \<lparr>IMAGE = None, WINDOWS_IMAGE = None, MACHINE_TYPE = ''m3.medium'', ZONE = ''us-east-1a''\<rparr>"
| "DEFAULTS DIGITALOCEAN =
     \<lparr>IMAGE = Some ''ubuntu-14-04-x64'', WINDOWS_IMAGE = None,
      MACHINE_TYPE = ''2gb'', ZONE = ''sfo1''\<rparr>"

text \<open>The OS types for which \<open>CLASSES[cloud][VIRTUAL_MACHINE]\<close> has a class.\<close>

fun vm_classes :: "cloud \<Rightarrow> os_type list" where
  "vm_classes DIGITALOCEAN = [DEBIAN, RHEL]"
| "vm_classes c = [DEBIAN, RHEL, WINDOWS]"

text \<open>Python's \<open>a or b\<close> on optional strings: \<open>None\<close> and the empty string are false.\<close>

definition py_or :: "string option \<Rightarrow> string option \<Rightarrow> string option" where
  "py_or a b = (case a of None \<Rightarrow> b | Some s \<Rightarrow> if s \<noteq> [] then Some s else b)"

text \<open>Python's \<open>xs[i]\<close>: a negative index counts from the end, out of range raises.\<close>

definition py_index :: "'a list \<Rightarrow> int \<Rightarrow> 'a prog" where
  "py_index xs i =
     (let n = int (length xs); j = (if i < 0 then n + i else i)
      in if 0 \<le> j \<and> j < n then return (xs ! nat j) else raise IndexError)"

text \<open>
  The dictionary returned by the benchmark module's \<open>GetInfo\<close>. A key may be missing
  (\<open>None\<close> here); \<open>num_machines\<close> may be present with the value \<open>None\<close>.
\<close>

record benchmark_info =
  info_name :: string
  info_num_machines :: "int option option"
  info_scratch_disk :: "int option"

text \<open>
  Modelled from the spec: \<open>StaticVirtualMachine.GetStaticVirtualMachine\<close>, which is not
  among the sources. A static VM is a pre-existing machine supplied by the operator; the
  model hands out the machines of the pool one by one and returns \<open>None\<close> once it is empty.
\<close>

definition GetStaticVirtualMachine :: "vm option prog" where
  "GetStaticVirtualMachine w =
     (case static_pool w of
        [] \<Rightarrow> (Inr None, w)
      | v # rest \<Rightarrow> (Inr (Some v), w\<lparr>static_pool := rest\<rparr>))"

text \<open>
  \<open>vm_class(self.vm_spec)\<close>: a new handle of the provider's class. The classes are not
  among the sources; a new handle is not static and has no disk specs yet, the other
  attributes come from the environment.
\<close>

definition new_vm :: "env \<Rightarrow> cloud \<Rightarrow> os_type \<Rightarrow> vm_spec \<Rightarrow> vm" where
  "new_vm E c os vs =
     (let a = vm_class E c os vs
      in \<lparr>vmspec = vs, is_static = False, install_packages = cls_install_packages a,
          max_local_disks = cls_max_local_disks a, winrm_port = cls_winrm_port a,
          smb_port = cls_smb_port a, ssh_port = cls_ssh_port a, disk_specs = []\<rparr>)"

text \<open>\<open>BenchmarkSpec.CreateVirtualMachine\<close>; returns the handle and the updated \<open>self\<close>.\<close>

definition CreateVirtualMachine ::
  "flags \<Rightarrow> env \<Rightarrow> spec \<Rightarrow> string option \<Rightarrow> (vm \<times> spec) prog" where
  "CreateVirtualMachine F E self opt_zone =
     bind GetStaticVirtualMachine (\<lambda>static.
       case static of
         Some v \<Rightarrow> return (v, self)
       | None \<Rightarrow>
           if flag_os_type F \<notin> set (vm_classes (spec_cloud self))
           then raise (Error (spec_cloud self) (flag_os_type F))
           else
             bind (case py_or opt_zone None of
                     Some z \<Rightarrow> return z
                   | None \<Rightarrow> py_index (zones self) 0)
               (\<lambda>zone.
                  let nets = (if zone \<notin> set (map fst (networks self))
                              then networks self @ [(zone, \<lparr>net_cloud = spec_cloud self, net_zone = zone\<rparr>)]
                              else networks self);
                      net = (case map_of nets zone of
                               Some n \<Rightarrow> n
                             | None \<Rightarrow> \<lparr>net_cloud = spec_cloud self, net_zone = zone\<rparr>);
                      vs = \<lparr>vs_project = spec_project self, vs_zone = zone,
                            vs_machine_type = machine_type self, vs_image = image self,
                            vs_network = net\<rparr>
                  in return (new_vm E (spec_cloud self) (flag_os_type F) vs,
                             self\<lparr>networks := nets, last_vm_spec := Some vs\<rparr>)))"

text \<open>
  The list comprehension
  \<open>[self.CreateVirtualMachine(self.zones[min(index, len(self.zones) - 1)]) for index in range(self.num_vms)]\<close>.
\<close>

fun CreateVirtualMachines :: "flags \<Rightarrow> env \<Rightarrow> spec \<Rightarrow> nat list \<Rightarrow> (vm list \<times> spec) prog" where
  "CreateVirtualMachines F E self [] = return ([], self)"
| "CreateVirtualMachines F E self (index # rest) =
     bind (py_index (zones self) (min (int index) (int (length (zones self)) - 1))) (\<lambda>z.
     bind (CreateVirtualMachine F E self (Some z)) (\<lambda>(v, self').
     bind (CreateVirtualMachines F E self' rest) (\<lambda>(vs, self'').
     return (v # vs, self''))))"

text \<open>\<open>'%d' % i\<close> for a natural number.\<close>

function str_nat :: "nat \<Rightarrow> string" where
  "str_nat n =
     (if n < 10 then [''0123456789'' ! n]
      else str_nat (n div 10) @ [''0123456789'' ! (n mod 10)])"
  by pat_completeness auto
termination
  by (relation "measure id") auto

declare str_nat.simps [simp del]

text \<open>
  The body of \<open>for vm in self.vms\<close>: the striping factor (Python 2 integer division) and
  the disk specs appended to the handle.
\<close>

definition striping_factor :: "flags \<Rightarrow> int \<Rightarrow> vm \<Rightarrow> int" where
  "striping_factor F sd v =
     (if flag_scratch_disk_type F = LOCAL \<and> sd \<noteq> 0 \<and> \<not> flag_num_striped_disks_present F
      then max_local_disks v div sd
      else flag_num_striped_disks F)"

definition scratch_disk_specs :: "flags \<Rightarrow> spec \<Rightarrow> int \<Rightarrow> vm \<Rightarrow> disk_spec list" where
  "scratch_disk_specs F self sd v =
     map (\<lambda>i. \<lparr>disk_size = scratch_disk_size self, disk_type = scratch_disk_type self,
               mount_point = ''/scratch'' @ str_nat i, iops = scratch_disk_iops self,
               num_striped_disks = striping_factor F sd v\<rparr>)
         [0..<nat sd]"

definition append_disk_specs :: "flags \<Rightarrow> spec \<Rightarrow> int \<Rightarrow> vm \<Rightarrow> vm" where
  "append_disk_specs F self sd v = v\<lparr>disk_specs := disk_specs v @ scratch_disk_specs F self sd v\<rparr>"

definition effective_zones :: "flags \<Rightarrow> string list" where
  "effective_zones F =
     (case flag_zones F of
        None \<Rightarrow> [ZONE (DEFAULTS (flag_cloud F))]
      | Some zs \<Rightarrow> if zs \<noteq> [] then zs else [ZONE (DEFAULTS (flag_cloud F))])"

definition effective_image :: "flags \<Rightarrow> string option" where
  "effective_image F =
     (if flag_os_type F = WINDOWS
      then py_or (flag_image F) (WINDOWS_IMAGE (DEFAULTS (flag_cloud F)))
      else py_or (flag_image F) (IMAGE (DEFAULTS (flag_cloud F))))"

definition effective_machine_type :: "flags \<Rightarrow> string" where
  "effective_machine_type F =
     (case flag_machine_type F of
        None \<Rightarrow> MACHINE_TYPE (DEFAULTS (flag_cloud F))
      | Some m \<Rightarrow> if m \<noteq> [] then m else MACHINE_TYPE (DEFAULTS (flag_cloud F)))"

text \<open>
  \<open>BenchmarkSpec.__init__\<close> when \<open>benchmark_config_pair\<close> does not name the benchmark (the
  path driven by a config file is not modelled). The attributes that \<open>__init__\<close> assigns
  after the handles are created (\<open>firewall\<close>, \<open>file_name\<close>, \<open>deleted\<close>,
  \<open>always_call_cleanup\<close>) are not read before, so the record carries their final values
  from the start. \<open>vm_dict['default']\<close> is the list object \<open>self.vms\<close> itself and the loop
  over the handles changes them in place, so both hold the handles with their disk specs.
\<close>

definition assigned_attributes :: "flags \<Rightarrow> env \<Rightarrow> benchmark_info \<Rightarrow> int option \<Rightarrow> int \<Rightarrow> spec" where
  "assigned_attributes F E benchmark_info num_machines sd =
     \<lparr>vms = [], vm_dict = [(''default'', [])], networks = [], last_vm_spec = None,
      benchmark_name = info_name benchmark_info,
      spec_cloud = flag_cloud F, spec_project = flag_project F,
      zones = effective_zones F, image = effective_image F,
      machine_type = effective_machine_type F,
      num_vms = (case num_machines of None \<Rightarrow> flag_num_vms F | Some n \<Rightarrow> n),
      scratch_disk = sd,
      scratch_disk_size = flag_scratch_disk_size F,
      scratch_disk_type = flag_scratch_disk_type F,
      scratch_disk_iops = flag_scratch_disk_iops F,
      spec_firewall = \<lparr>fw_cloud = flag_cloud F, fw_project = flag_project F\<rparr>,
      file_name = temp_dir E @ ''/'' @ info_name benchmark_info,
      deleted = False, always_call_cleanup = False\<rparr>"

definition BenchmarkSpec :: "flags \<Rightarrow> env \<Rightarrow> benchmark_info \<Rightarrow> spec prog" where
  "BenchmarkSpec F E benchmark_info =
     (case info_num_machines benchmark_info of
        None \<Rightarrow> raise (KeyError ''num_machines'')
      | Some num_machines \<Rightarrow>
     (case info_scratch_disk benchmark_info of
        None \<Rightarrow> raise (KeyError ''scratch_disk'')
      | Some sd \<Rightarrow>
          bind (CreateVirtualMachines F E
                  (assigned_attributes F E benchmark_info num_machines sd)
                  [0..<nat (num_vms (assigned_attributes F E benchmark_info num_machines sd))])
            (\<lambda>(vs, self).
               return (self\<lparr>vms := map (append_disk_specs F self sd) vs,
                            vm_dict := [(''default'', map (append_disk_specs F self sd) vs)]\<rparr>))))"

section \<open>\<open>PickleSpec\<close> and \<open>GetSpecFromFile\<close>\<close>

text \<open>
  The pickle of a spec is a snapshot of its whole object graph; the file system keeps the
  snapshot under the path. Opening the file is an external call and may raise.
\<close>

definition PickleSpec :: "env \<Rightarrow> spec \<Rightarrow> unit prog" where
  "PickleSpec E self =
     seq (call E (OpenFile (file_name self)))
         (\<lambda>w. (Inr (), w\<lparr>files := (file_name self, self) # files w\<rparr>))"

definition GetSpecFromFile :: "env \<Rightarrow> string \<Rightarrow> spec prog" where
  "GetSpecFromFile E name =
     (let fn = temp_dir E @ ''/'' @ name
      in bind (try_except
                 (seq (call E (OpenFile fn))
                      (\<lambda>w. case map_of (files w) fn of
                              None \<Rightarrow> (Inl (IOError fn), w)
                            | Some s \<Rightarrow> (Inr s, w)))
                 (\<lambda>e. seq (logging ''Unable to unpickle spec file for benchmark %s.'') (raise e)))
           (\<lambda>s. return (s\<lparr>deleted := False\<rparr>)))"

section \<open>The stage sequencer of \<open>pkb.py\<close>\<close>

text \<open>
  The benchmark module: its \<open>GetInfo\<close> dictionary and whether it has a
  \<open>CheckPrerequisites\<close> function. Its hooks are external calls. The timers only measure.
\<close>

record benchmark =
  GetInfo :: benchmark_info
  has_CheckPrerequisites :: bool

definition ValidateBenchmarkInfo :: "benchmark_info \<Rightarrow> bool prog" where
  "ValidateBenchmarkInfo info =
     (if info_scratch_disk info = None
      then seq (logging ''Benchmark information %s is corrupt.'') (return False)
      else if info_num_machines info = None
      then seq (logging ''Benchmark information %s is corrupt.'') (return False)
      else return True)"

definition DoPreparePhase :: "flags \<Rightarrow> env \<Rightarrow> spec \<Rightarrow> unit prog" where
  "DoPreparePhase F E s =
     seq (logging ''Preparing benchmark %s'')
    (seq (Prepare F E s)
         (call E BenchmarkPrepare))"

definition DoRunPhase :: "env \<Rightarrow> unit prog" where
  "DoRunPhase E =
     seq (logging ''Running benchmark %s'')
    (seq (for_each (\<lambda>i. call E (BeforeRunHook i)) [0..<before_run_hooks E])
    (seq (call E BenchmarkRun)
         (call E (CollectorAddSamples ''Benchmark Run''))))"

definition DoCleanupPhase :: "flags \<Rightarrow> env \<Rightarrow> spec \<Rightarrow> spec prog" where
  "DoCleanupPhase F E s =
     seq (logging ''Cleaning up benchmark %s'')
    (seq (call E BenchmarkCleanup)
         (Delete F E s))"

text \<open>
  The body of the \<open>try\<close> statement of \<open>RunBenchmark\<close>. Besides its outcome it returns the
  local variable \<open>spec\<close> as it stands when the body is left: \<open>None\<close> until the constructor
  or \<open>GetSpecFromFile\<close> has returned, afterwards the spec object in its current state
  (only \<open>Delete\<close> changes it, as its last step).
\<close>

definition AddTimerSamples :: "flags \<Rightarrow> env \<Rightarrow> unit prog" where
  "AddTimerSamples F E =
     seq (if run_stage F = STAGE_ALL then call E (CollectorAddSamples ''End to End'') else return ())
         (call E (CollectorAddSamples ''detailed_timer''))"

definition RunBenchmark_try ::
  "flags \<Rightarrow> env \<Rightarrow> benchmark_info \<Rightarrow> world \<Rightarrow> (exn + unit) \<times> spec option \<times> world" where
  "RunBenchmark_try F E info w =
     (case (if run_stage F \<in> {STAGE_ALL, STAGE_PREPARE}
            then BenchmarkSpec F E info
            else GetSpecFromFile E (info_name info)) w of
        (Inl e, w1) \<Rightarrow> (Inl e, None, w1)
      | (Inr s, w1) \<Rightarrow>
     (case (if run_stage F \<in> {STAGE_ALL, STAGE_PREPARE}
            then seq (PickleSpec E s) (DoPreparePhase F E s)
            else return ()) w1 of
        (Inl e, w2) \<Rightarrow> (Inl e, Some s, w2)
      | (Inr _, w2) \<Rightarrow>
     (case (if run_stage F \<in> {STAGE_ALL, STAGE_RUN} then DoRunPhase E else return ()) w2 of
        (Inl e, w3) \<Rightarrow> (Inl e, Some s, w3)
      | (Inr _, w3) \<Rightarrow>
     (case (if run_stage F \<in> {STAGE_ALL, STAGE_CLEANUP} then DoCleanupPhase F E s
            else return s) w3 of
        (Inl e, w4) \<Rightarrow> (Inl e, Some s, w4)
      | (Inr s', w4) \<Rightarrow>
     (case AddTimerSamples F E w4 of
        (r, w5) \<Rightarrow> (r, Some s', w5))))))"

text \<open>The \<open>finally\<close> clause of \<open>RunBenchmark\<close>; \<open>None.PickleSpec()\<close> raises.\<close>

definition RunBenchmark_finally :: "flags \<Rightarrow> env \<Rightarrow> spec option \<Rightarrow> unit prog" where
  "RunBenchmark_finally F E spec_var =
     (if run_stage F \<in> {STAGE_ALL, STAGE_CLEANUP}
      then (case spec_var of
              Some s \<Rightarrow> bind (Delete F E s) (\<lambda>_. return ())
            | None \<Rightarrow> return ())
      else (case spec_var of
              Some s \<Rightarrow> PickleSpec E s
            | None \<Rightarrow> raise (AttributeError ''PickleSpec'')))"

text \<open>The \<open>try\<close> / \<open>except Exception\<close> / \<open>finally\<close> statement of \<open>RunBenchmark\<close>.\<close>

definition RunBenchmark_guarded :: "flags \<Rightarrow> env \<Rightarrow> benchmark_info \<Rightarrow> unit prog" where
  "RunBenchmark_guarded F E info w =
     (case RunBenchmark_try F E info w of
        (r, spec_var, w1) \<Rightarrow>
          try_finally
            (case r of
               Inl e \<Rightarrow> seq (logging ''Error during benchmark %s'') (raise e)
             | Inr _ \<Rightarrow> return ())
            (RunBenchmark_finally F E spec_var) w1)"

definition RunBenchmark :: "flags \<Rightarrow> env \<Rightarrow> benchmark \<Rightarrow> unit prog" where
  "RunBenchmark F E b =
     bind (ValidateBenchmarkInfo (GetInfo b)) (\<lambda>valid.
       if \<not> valid then return ()
       else
         seq (if has_CheckPrerequisites b
              then try_except (call E CheckPrerequisites)
                     (\<lambda>e. seq (logging ''Prerequisite check failed for %s'') (raise e))
              else return ())
             (RunBenchmark_guarded F E (GetInfo b)))"


section \<open>Concrete inputs\<close>

definition example_flags :: flags where
  "example_flags =
     \<lparr>run_stage = STAGE_ALL, flag_cloud = GCP, flag_os_type = DEBIAN, flag_project = Some ''p'',
      flag_zones = Some [''a'', ''b''], flag_image = None, flag_machine_type = None,
      flag_num_vms = 1, flag_scratch_disk_size = 500, flag_scratch_disk_type = ''local'',
      flag_scratch_disk_iops = 1500, flag_num_striped_disks = 1,
      flag_num_striped_disks_present = False\<rparr>"

definition example_attrs :: class_attrs where
  "example_attrs =
     \<lparr>cls_install_packages = True, cls_max_local_disks = 8, cls_winrm_port = None,
      cls_smb_port = None, cls_ssh_port = Some 22\<rparr>"

definition example_env :: env where
  "example_env =
     \<lparr>raises = (\<lambda>_ _. False), temp_dir = ''/tmp/pkb'', vm_class = (\<lambda>_ _ _. example_attrs),
      before_run_hooks = 0\<rparr>"

text \<open>An environment in which every external call raises.\<close>

definition failing_env :: env where
  "failing_env = example_env\<lparr>raises := (\<lambda>_ _. True)\<rparr>"

text \<open>An environment in which exactly the benchmark's \<open>Run\<close> hook raises.\<close>

definition run_fails_env :: env where
  "run_fails_env = example_env\<lparr>raises := (\<lambda>_ e. e = BenchmarkRun)\<rparr>"

definition example_world :: world where
  "example_world = \<lparr>trace = [], files = [], static_pool = []\<rparr>"

definition example_info :: benchmark_info where
  "example_info =
     \<lparr>info_name = ''iperf'', info_num_machines = Some (Some 5), info_scratch_disk = Some 2\<rparr>"

definition example_network :: network where
  "example_network = \<lparr>net_cloud = GCP, net_zone = ''a''\<rparr>"

definition example_firewall :: firewall where
  "example_firewall = \<lparr>fw_cloud = GCP, fw_project = Some ''p''\<rparr>"

definition example_disk :: disk_spec where
  "example_disk =
     \<lparr>disk_size = 500, disk_type = ''local'', mount_point = ''/scratch0'', iops = 1500,
      num_striped_disks = 8\<rparr>"

definition example_vm :: vm where
  "example_vm =
     \<lparr>vmspec = \<lparr>vs_project = Some ''p'', vs_zone = ''a'', vs_machine_type = ''n1-standard-1'',
                vs_image = Some ''ubuntu-14-04'', vs_network = example_network\<rparr>,
      is_static = False, install_packages = True, max_local_disks = 8, winrm_port = None,
      smb_port = None, ssh_port = Some 22, disk_specs = [example_disk]\<rparr>"

definition example_spec :: spec where
  "example_spec =
     \<lparr>vms = [example_vm], vm_dict = [(''default'', [example_vm])],
      networks = [(''a'', example_network)], last_vm_spec = Some (vmspec example_vm),
      benchmark_name = ''iperf'', spec_cloud = GCP, spec_project = Some ''p'',
      zones = [''a''], image = Some ''ubuntu-14-04'', machine_type = ''n1-standard-1'',
      num_vms = 1, scratch_disk = 1, scratch_disk_size = 500, scratch_disk_type = ''local'',
      scratch_disk_iops = 1500, spec_firewall = example_firewall,
      file_name = ''/tmp/pkb/iperf'', deleted = False, always_call_cleanup = False\<rparr>"

definition aws_flags :: flags where
  "aws_flags = example_flags\<lparr>flag_cloud := AWS\<rparr>"

section \<open>The order of one VM's pipeline\<close>

text \<open>The ports \<open>PrepareVm\<close> opens: remote management, file sharing, remote shell.\<close>

definition open_ports :: "firewall \<Rightarrow> vm \<Rightarrow> event list" where
  "open_ports fw v =
     concat (map (\<lambda>port. case port of
                            None \<Rightarrow> []
                          | Some p \<Rightarrow> if p \<noteq> 0 then [FirewallAllowPort fw v p] else [])
                 [winrm_port v, smb_port v, ssh_port v])"

text \<open>
  The pipeline of one VM as a list of steps: create, open the firewall ports, tag, wait
  for boot completion, start up, set up the local disks when the scratch disk type is
  local, create each declared scratch disk.
\<close>

definition PrepareVm_pipeline :: "flags \<Rightarrow> spec \<Rightarrow> vm \<Rightarrow> firewall \<Rightarrow> event list" where
  "PrepareVm_pipeline F self v fw =
     [VmCreate v, Log ''VM: %s'', Log ''Waiting for boot completion.''] @
     open_ports fw v @
     [VmAddMetadata v (benchmark_name self), VmWaitForBootCompletion v, VmStartup v] @
     (if flag_scratch_disk_type F = LOCAL then [VmSetupLocalDisks v] else []) @
     map (VmCreateScratchDisk v) (disk_specs v)"

text \<open>\<open>a\<close> is recorded in \<open>evs\<close> before the first \<open>b\<close>.\<close>

definition occurs_before :: "event \<Rightarrow> event \<Rightarrow> event list \<Rightarrow> bool" where
  "occurs_before a b evs = (a \<in> set (takeWhile (\<lambda>e. e \<noteq> b) evs) \<and> b \<in> set evs)"

text \<open>
  \<open>does evs m\<close>: \<open>m\<close> goes through the steps \<open>evs\<close> in order, stops at the first one that
  raises, raises what that step raised, and returns normally only after the last one.
\<close>

definition does :: "event list \<Rightarrow> unit prog \<Rightarrow> bool" where
  "does evs m =
     (\<forall>w r w'. m w = (r, w') \<longrightarrow>
        (\<exists>k \<le> length evs. trace w' = trace w @ take k evs \<and>
           (r = Inr () \<longrightarrow> k = length evs) \<and>
           (\<forall>e. r = Inl e \<longrightarrow> 0 < k \<and> e = Raised (evs ! (k - 1)))))"

text \<open>\<open>same_config self self'\<close>: at most \<open>networks\<close> and \<open>vm_spec\<close> differ.\<close>

definition same_config :: "spec \<Rightarrow> spec \<Rightarrow> bool" where
  "same_config self self' = (\<exists>nets lv. self' = self\<lparr>networks := nets, last_vm_spec := lv\<rparr>)"

section \<open>What a statement records\<close>

text \<open>
  \<open>emits P m\<close>: whatever \<open>m\<close> does, it only appends events to the trace, and every event
  it appends satisfies \<open>P\<close>.
\<close>

definition emits :: "(event \<Rightarrow> bool) \<Rightarrow> 'a prog \<Rightarrow> bool" where
  "emits P m = (\<forall>w r w'. m w = (r, w') \<longrightarrow> (\<exists>evs. trace w' = trace w @ evs \<and> list_all P evs))"

lemma emitsI:
  "(\<And>w r w'. m w = (r, w') \<Longrightarrow> \<exists>evs. trace w' = trace w @ evs \<and> list_all P evs) \<Longrightarrow> emits P m"
  by (simp add: emits_def)

lemma emitsD:
  "emits P m \<Longrightarrow> m w = (r, w') \<Longrightarrow> \<exists>evs. trace w' = trace w @ evs \<and> list_all P evs"
  by (simp add: emits_def)

lemma emits_return: "emits P (return x)"
  by (simp add: emits_def return_def)

lemma emits_raise: "emits P (raise e)"
  by (simp add: emits_def raise_def)

lemma emits_call: "P e \<Longrightarrow> emits P (call E e)"
  by (auto simp: emits_def call_def split: if_splits)

lemma emits_logging: "P (Log msg) \<Longrightarrow> emits P (logging msg)"
  by (auto simp: emits_def logging_def)

lemma emits_bind:
  assumes m: "emits P m" and k: "\<And>x. emits P (k x)"
  shows "emits P (bind m k)"
proof (rule emitsI)
  fix w r w' assume b: "bind m k w = (r, w')"
  obtain r1 w1 where mw: "m w = (r1, w1)" by (cases "m w")
  from emitsD[OF m mw] obtain evs1 where e1: "trace w1 = trace w @ evs1" "list_all P evs1"
    by blast
  show "\<exists>evs. trace w' = trace w @ evs \<and> list_all P evs"
  proof (cases r1)
    case (Inl e)
    with b mw have "w' = w1" by (simp add: bind_def)
    with e1 show ?thesis by blast
  next
    case (Inr x)
    with b mw have "k x w1 = (r, w')" by (simp add: bind_def)
    from emitsD[OF k this] obtain evs2 where "trace w' = trace w1 @ evs2" "list_all P evs2"
      by blast
    with e1 have "trace w' = trace w @ (evs1 @ evs2) \<and> list_all P (evs1 @ evs2)" by simp
    then show ?thesis by blast
  qed
qed

lemma emits_seq: "emits P m \<Longrightarrow> emits P k \<Longrightarrow> emits P (seq m k)"
  by (simp add: seq_def emits_bind)

lemma emits_try_except:
  assumes m: "emits P m" and h: "\<And>e. emits P (h e)"
  shows "emits P (try_except m h)"
proof (rule emitsI)
  fix w r w' assume b: "try_except m h w = (r, w')"
  obtain r1 w1 where mw: "m w = (r1, w1)" by (cases "m w")
  from emitsD[OF m mw] obtain evs1 where e1: "trace w1 = trace w @ evs1" "list_all P evs1"
    by blast
  show "\<exists>evs. trace w' = trace w @ evs \<and> list_all P evs"
  proof (cases r1)
    case (Inr x)
    with b mw have "w' = w1" by (simp add: try_except_def)
    with e1 show ?thesis by blast
  next
    case (Inl e)
    with b mw have "h e w1 = (r, w')" by (simp add: try_except_def)
    from emitsD[OF h this] obtain evs2 where "trace w' = trace w1 @ evs2" "list_all P evs2"
      by blast
    with e1 have "trace w' = trace w @ (evs1 @ evs2) \<and> list_all P (evs1 @ evs2)" by simp
    then show ?thesis by blast
  qed
qed

lemma emits_for_each: "(\<And>x. x \<in> set xs \<Longrightarrow> emits P (body x)) \<Longrightarrow> emits P (for_each body xs)"
  by (induction xs) (simp_all add: emits_return emits_seq)

lemma emits_RunThreaded_from:
  assumes t: "\<And>x. x \<in> set xs \<Longrightarrow> emits P (target x)"
  shows "emits P (RunThreaded_from b target xs)"
  using t
proof (induction xs arbitrary: b)
  case Nil
  show ?case by (auto simp: emits_def)
next
  case (Cons x xs)
  have tx: "emits P (target x)" using Cons.prems by simp
  have rest: "\<And>b. emits P (RunThreaded_from b target xs)" using Cons by simp
  show ?case
  proof (rule emitsI)
    fix w r w' assume b: "RunThreaded_from b target (x # xs) w = (r, w')"
    obtain r1 w1 where mw: "target x w = (r1, w1)" by (cases "target x w")
    from emitsD[OF tx mw] obtain evs1 where e1: "trace w1 = trace w @ evs1" "list_all P evs1"
      by blast
    from b mw obtain b' where "RunThreaded_from b' target xs w1 = (r, w')"
      by (cases r1) auto
    from emitsD[OF rest this] obtain evs2 where "trace w' = trace w1 @ evs2" "list_all P evs2"
      by blast
    with e1 have "trace w' = trace w @ (evs1 @ evs2) \<and> list_all P (evs1 @ evs2)" by simp
    then show "\<exists>evs. trace w' = trace w @ evs \<and> list_all P evs" by blast
  qed
qed

lemma emits_RunThreaded:
  "(\<And>x. x \<in> set xs \<Longrightarrow> emits P (target x)) \<Longrightarrow> emits P (RunThreaded target xs)"
  by (simp add: RunThreaded_def emits_RunThreaded_from)

lemma emits_if: "(c \<Longrightarrow> emits P m) \<Longrightarrow> (\<not> c \<Longrightarrow> emits P k) \<Longrightarrow> emits P (if c then m else k)"
  by simp

section \<open>Teardown\<close>

lemma emits_DeleteVm:
  "P (VmPackageCleanup v) \<Longrightarrow> P (VmDelete v) \<Longrightarrow> P (VmDeleteScratchDisks v) \<Longrightarrow>
   emits P (DeleteVm E v)"
  unfolding DeleteVm_def
  by (intro emits_seq emits_if emits_call emits_return)

lemma Delete_skipped:
  "run_stage F \<notin> {STAGE_ALL, STAGE_CLEANUP} \<or> deleted self \<Longrightarrow> Delete F E self w = (Inr self, w)"
  by (auto simp: Delete_def return_def)

text \<open>A call wrapped in \<open>try\<close>/\<open>except\<close> with a handler that only logs: made, never raises.\<close>

lemma guarded_call:
  "\<exists>evs w'. try_except (call E e) (\<lambda>_. logging msg) w = (Inr (), w') \<and>
     trace w' = trace w @ e # evs \<and> list_all (\<lambda>x. x = Log msg) evs"
  by (auto simp: try_except_def call_def logging_def)

lemma Delete_networks_runs:
  "\<exists>evs w'. Delete_networks E nets w = (Inr (), w') \<and> trace w' = trace w @ evs \<and>
     (\<forall>(zone, net) \<in> set nets. NetworkDelete net \<in> set evs)"
proof (induction nets arbitrary: w)
  case Nil
  show ?case by (simp add: Delete_networks_def return_def)
next
  case (Cons p nets)
  obtain zone net where p: "p = (zone, net)" by (cases p)
  let ?msg = "''Got an exception deleting networks. Attempting to continue tearing down.''"
  from guarded_call[of E "NetworkDelete net" ?msg w]
  obtain evs1 w1 where s1: "try_except (call E (NetworkDelete net)) (\<lambda>_. logging ?msg) w = (Inr (), w1)"
    and t1: "trace w1 = trace w @ NetworkDelete net # evs1" by blast
  from Cons.IH[of w1] obtain evs2 w2 where s2: "Delete_networks E nets w1 = (Inr (), w2)"
    and t2: "trace w2 = trace w1 @ evs2"
    and m2: "\<forall>(zone, net) \<in> set nets. NetworkDelete net \<in> set evs2" by blast
  have "Delete_networks E (p # nets) w = (Inr (), w2)"
    using s1 s2 by (simp add: Delete_networks_def p seq_def bind_def)
  moreover have "trace w2 = trace w @ (NetworkDelete net # evs1 @ evs2)" using t1 t2 by simp
  moreover have "\<forall>(zone, net') \<in> set (p # nets). NetworkDelete net' \<in> set (NetworkDelete net # evs1 @ evs2)"
    using m2 p by auto
  ultimately show ?case by blast
qed

lemma Delete_vms_runs:
  "\<exists>evs w'. try_except (RunThreaded (DeleteVm E) vs) (\<lambda>_. logging msg) w = (Inr (), w') \<and>
      trace w' = trace w @ evs"
proof -
  have "emits (\<lambda>_. True) (try_except (RunThreaded (DeleteVm E) vs) (\<lambda>_. logging msg))"
    by (intro emits_try_except emits_RunThreaded emits_DeleteVm emits_logging) simp_all
  moreover have "fst (try_except (RunThreaded (DeleteVm E) vs) (\<lambda>_. logging msg) w) = Inr ()"
    by (cases "RunThreaded (DeleteVm E) vs w") (auto simp: try_except_def logging_def split: sum.splits)
  ultimately show ?thesis
    by (cases "try_except (RunThreaded (DeleteVm E) vs) (\<lambda>_. logging msg) w") (auto dest: emitsD)
qed

lemma Delete_runs:
  assumes "run_stage F \<in> {STAGE_ALL, STAGE_CLEANUP}" and "\<not> deleted self"
  shows "\<exists>evs w'. Delete F E self w = (Inr (self\<lparr>deleted := True\<rparr>), w') \<and>
           trace w' = trace w @ evs \<and>
           FirewallDisallowAllPorts (spec_firewall self) \<in> set evs \<and>
           (\<forall>(zone, net) \<in> set (networks self). NetworkDelete net \<in> set evs)"
proof -
  let ?m1 = "''Got an exception deleting VMs. Attempting to continue tearing down.''"
  let ?m2 = "''Got an exception disabling firewalls. Attempting to continue tearing down.''"
  let ?A = "if vms self \<noteq> [] then try_except (RunThreaded (DeleteVm E) (vms self)) (\<lambda>_. logging ?m1)
            else return ()"
  obtain evs1 w1 where s1: "?A w = (Inr (), w1)" and t1: "trace w1 = trace w @ evs1"
    using Delete_vms_runs[of E "vms self" ?m1 w] by (cases "vms self = []") (auto simp: return_def)
  obtain evs2 w2 where
    s2: "try_except (call E (FirewallDisallowAllPorts (spec_firewall self))) (\<lambda>_. logging ?m2) w1 = (Inr (), w2)"
    and t2: "trace w2 = trace w1 @ FirewallDisallowAllPorts (spec_firewall self) # evs2"
    using guarded_call[of E "FirewallDisallowAllPorts (spec_firewall self)" ?m2 w1] by blast
  obtain evs3 w3 where s3: "Delete_networks E (networks self) w2 = (Inr (), w3)"
    and t3: "trace w3 = trace w2 @ evs3"
    and m3: "\<forall>(zone, net) \<in> set (networks self). NetworkDelete net \<in> set evs3"
    using Delete_networks_runs[of E "networks self" w2] by blast
  have "Delete F E self w = (Inr (self\<lparr>deleted := True\<rparr>), w3)"
    using assms s1 s2 s3 by (simp add: Delete_def seq_def bind_def return_def)
  moreover have "trace w3 = trace w @ (evs1 @ FirewallDisallowAllPorts (spec_firewall self) # evs2 @ evs3)"
    using t1 t2 t3 by simp
  moreover have "FirewallDisallowAllPorts (spec_firewall self)
                   \<in> set (evs1 @ FirewallDisallowAllPorts (spec_firewall self) # evs2 @ evs3)"
    by simp
  moreover have "\<forall>(zone, net) \<in> set (networks self).
      NetworkDelete net \<in> set (evs1 @ FirewallDisallowAllPorts (spec_firewall self) # evs2 @ evs3)"
    using m3 by auto
  ultimately show ?thesis by blast
qed

text \<open>
  C1. Calling \<open>Delete\<close> twice in a row: the first call returns normally, and the second
  call, made on the spec and the world the first one left, returns that spec and that
  world unchanged: it makes no call at all, on any handle. When the run stage is \<open>all\<close>
  or \<open>cleanup\<close> the flag \<open>deleted\<close> is true after the first call, and so it stays.
\<close>

theorem Delete_idempotent:
  "\<exists>self1 w1. Delete F E self w = (Inr self1, w1) \<and>
      Delete F E self1 w1 = (Inr self1, w1) \<and>
      (run_stage F \<in> {STAGE_ALL, STAGE_CLEANUP} \<longrightarrow> deleted self1)"
proof (cases "run_stage F \<notin> {STAGE_ALL, STAGE_CLEANUP} \<or> deleted self")
  case True
  then have "Delete F E self w = (Inr self, w)" by (rule Delete_skipped)
  moreover have "run_stage F \<in> {STAGE_ALL, STAGE_CLEANUP} \<longrightarrow> deleted self" using True by blast
  ultimately show ?thesis by blast
next
  case False
  then obtain w1 where d: "Delete F E self w = (Inr (self\<lparr>deleted := True\<rparr>), w1)"
    using Delete_runs[of F self E w] by blast
  have "Delete F E (self\<lparr>deleted := True\<rparr>) w1 = (Inr (self\<lparr>deleted := True\<rparr>), w1)"
    by (rule Delete_skipped) simp
  with d show ?thesis by simp
qed

theorem Delete_idempotent_witness:
  "run_stage example_flags \<in> {STAGE_ALL, STAGE_CLEANUP} \<and>
   (\<exists>self1 w1. Delete example_flags failing_env example_spec example_world = (Inr self1, w1) \<and>
      Delete example_flags failing_env self1 w1 = (Inr self1, w1) \<and> deleted self1)"
  using Delete_idempotent[of example_flags failing_env example_spec example_world]
  by (simp add: example_flags_def)

text \<open>
  C2. When \<open>Delete\<close> runs its teardown body (the run stage is \<open>all\<close> or \<open>cleanup\<close> and the
  spec is not deleted yet), then whatever the external calls do, also when deleting the
  VMs raises and when every call raises: \<open>DisallowAllPorts\<close> is called on the firewall,
  \<open>Delete\<close> is called on the network of every zone, \<open>Delete\<close> returns normally to its
  caller, and the spec it leaves is the old one with \<open>deleted\<close> set to true.
\<close>

theorem Delete_partial_teardown:
  assumes "run_stage F \<in> {STAGE_ALL, STAGE_CLEANUP}" and "\<not> deleted self"
  shows "\<exists>evs w'. Delete F E self w = (Inr (self\<lparr>deleted := True\<rparr>), w') \<and>
           trace w' = trace w @ evs \<and>
           FirewallDisallowAllPorts (spec_firewall self) \<in> set evs \<and>
           (\<forall>(zone, net) \<in> set (networks self). NetworkDelete net \<in> set evs)"
  using assms by (rule Delete_runs)

theorem Delete_partial_teardown_witness:
  "run_stage example_flags \<in> {STAGE_ALL, STAGE_CLEANUP} \<and> \<not> deleted example_spec \<and>
   raises failing_env (trace example_world) (VmDelete example_vm) \<and>
   (\<exists>evs w'. Delete example_flags failing_env example_spec example_world
               = (Inr (example_spec\<lparr>deleted := True\<rparr>), w') \<and>
      trace w' = trace example_world @ evs \<and>
      FirewallDisallowAllPorts example_firewall \<in> set evs \<and>
      NetworkDelete example_network \<in> set evs)"
  using Delete_partial_teardown[of example_flags example_spec failing_env example_world]
  by (simp add: example_flags_def example_spec_def failing_env_def)

text \<open>
  C9. When the run stage is neither \<open>all\<close> nor \<open>cleanup\<close>, \<open>Delete\<close> returns at once: the
  world is unchanged (no call on any handle was made) and so is every field of the spec,
  \<open>deleted\<close> included.
\<close>

theorem Delete_run_stage_guard:
  assumes "run_stage F \<notin> {STAGE_ALL, STAGE_CLEANUP}"
  shows "Delete F E self w = (Inr self, w)"
  using assms by (simp add: Delete_def return_def)

theorem Delete_run_stage_guard_witness:
  "run_stage (example_flags\<lparr>run_stage := STAGE_PREPARE\<rparr>) \<notin> {STAGE_ALL, STAGE_CLEANUP} \<and>
   \<not> deleted example_spec \<and>
   Delete (example_flags\<lparr>run_stage := STAGE_PREPARE\<rparr>) example_env example_spec example_world
     = (Inr example_spec, example_world)"
  using Delete_run_stage_guard[of "example_flags\<lparr>run_stage := STAGE_PREPARE\<rparr>"
          example_env example_spec example_world]
  by (simp add: example_spec_def)

end
